theory Spec2Isabelle
  imports Complex_Main
begin

section \<open>Python text primitives used by the driver\<close>

text \<open>
  Python \<open>str\<close> values are modelled as \<open>string\<close>, one \<open>char\<close> per code point,
  for code points below 256 (so the micro sign of the unit names is the single character
  \<open>0xB5\<close>). Python \<open>float\<close> values are modelled by the real number they denote:
  arithmetic is exact, and infinities and NaN have no counterpart. The built-in
  \<open>float(text)\<close> is a parameter \<open>pf\<close> of every operation that calls it
  (\<open>None\<close> stands for its \<open>ValueError\<close>); \<open>dec_float\<close> below is the instance
  used for concrete runs.
\<close>

datatype py_error =
    PortNotOpen      \<comment> \<open>\<open>Exception\<close> raised by \<open>_opm_send\<close>/\<open>_opm_recv\<close> without a device\<close>
  | TimeoutError     \<comment> \<open>\<open>_opm_recv\<close> exhausted its retries\<close>
  | InvalidChoice    \<comment> \<open>\<open>Exception("Invalid gain/bandwith ...")\<close>\<close>
  | ValueError
  | IndexError
  | KeyError
  | TypeError
  | ZeroDivisionError

type_synonym 'a res = "py_error + 'a"

definition py_isspace :: "char \<Rightarrow> bool" where
  "py_isspace c = (c \<in> set [CHR 0x09, CHR 0x0A, CHR 0x0B, CHR 0x0C, CHR 0x0D,
                              CHR 0x1C, CHR 0x1D, CHR 0x1E, CHR 0x1F, CHR 0x20,
                              CHR 0x85, CHR 0xA0])"

definition py_strip :: "string \<Rightarrow> string" where
  "py_strip s = rev (dropWhile py_isspace (rev (dropWhile py_isspace s)))"

definition startswith :: "string \<Rightarrow> string \<Rightarrow> bool" where
  "startswith s p = (take (length p) s = p)"

text \<open>\<open>s.count(sub)\<close> for a non-empty \<open>sub\<close>: occurrences that do not overlap, from the left.\<close>

fun py_count :: "string \<Rightarrow> string \<Rightarrow> nat" where
  "py_count sub [] = 0"
| "py_count sub (c # cs) =
     (if sub \<noteq> [] \<and> startswith (c # cs) sub
      then Suc (py_count sub (drop (length sub - 1) cs))
      else py_count sub cs)"

text \<open>\<open>s.replace(old, new)\<close> for a non-empty \<open>old\<close>.\<close>

fun py_replace :: "string \<Rightarrow> string \<Rightarrow> string \<Rightarrow> string" where
  "py_replace old new [] = []"
| "py_replace old new (c # cs) =
     (if old \<noteq> [] \<and> startswith (c # cs) old
      then new @ py_replace old new (drop (length old - 1) cs)
      else c # py_replace old new cs)"

text \<open>Slices \<open>s[i:]\<close> and \<open>s[:i]\<close> with Python's treatment of negative bounds.\<close>

definition slice_from :: "string \<Rightarrow> int \<Rightarrow> string" where
  "slice_from s i = (if i < 0 then drop (nat (int (length s) + i)) s else drop (nat i) s)"

definition slice_to :: "string \<Rightarrow> int \<Rightarrow> string" where
  "slice_to s i = (if i < 0 then take (nat (int (length s) + i)) s else take (nat i) s)"

text \<open>\<open>s.find(c)\<close> for a single character: the first index, or \<open>-1\<close>.\<close>

fun py_find :: "string \<Rightarrow> char \<Rightarrow> int" where
  "py_find [] c = -1"
| "py_find (x # xs) c =
     (if x = c then 0 else (let r = py_find xs c in if r < 0 then -1 else r + 1))"

text \<open>\<open>s.splitlines()\<close>: the line boundaries among the code points below 256; CR LF is one.\<close>

definition py_linebreak :: "char \<Rightarrow> bool" where
  "py_linebreak c = (c \<in> set [CHR 0x0A, CHR 0x0B, CHR 0x0C, CHR 0x0D,
                                CHR 0x1C, CHR 0x1D, CHR 0x1E, CHR 0x85])"

fun splitlines_acc :: "string \<Rightarrow> string \<Rightarrow> string list" where
  "splitlines_acc acc [] = (if acc = [] then [] else [rev acc])"
| "splitlines_acc acc (c # cs) =
     (if c = CHR 0x0D \<and> cs \<noteq> [] \<and> hd cs = CHR 0x0A then rev acc # splitlines_acc [] (tl cs)
      else if py_linebreak c then rev acc # splitlines_acc [] cs
      else splitlines_acc (c # acc) cs)"

definition splitlines :: "string \<Rightarrow> string list" where
  "splitlines s = splitlines_acc [] s"

text \<open>\<open>str(n)\<close> for an integer, \<open>s.zfill(w)\<close>, and \<open>int(text)\<close> on decimal numerals.\<close>

definition digit_char :: "nat \<Rightarrow> char" where
  "digit_char d = ''0123456789'' ! d"

fun nat_digits :: "nat \<Rightarrow> string" where
  "nat_digits n = (if n < 10 then [digit_char n] else nat_digits (n div 10) @ [digit_char (n mod 10)])"

definition py_str :: "int \<Rightarrow> string" where
  "py_str i = (if i < 0 then CHR ''-'' # nat_digits (nat (- i)) else nat_digits (nat i))"

definition zfill :: "string \<Rightarrow> nat \<Rightarrow> string" where
  "zfill s w =
     (if length s \<ge> w then s
      else if s \<noteq> [] \<and> (hd s = CHR ''+'' \<or> hd s = CHR ''-'')
        then hd s # replicate (w - length s) CHR ''0'' @ tl s
      else replicate (w - length s) CHR ''0'' @ s)"

definition is_digit :: "char \<Rightarrow> bool" where
  "is_digit c = (48 \<le> (of_char c :: nat) \<and> (of_char c :: nat) \<le> 57)"

definition digit_val :: "char \<Rightarrow> nat" where
  "digit_val c = of_char c - 48"

definition digits_val :: "string \<Rightarrow> nat" where
  "digits_val ds = foldl (\<lambda>acc c. 10 * acc + digit_val c) 0 ds"

text \<open>
  \<open>int(text)\<close> on the texts the driver passes to it: an optional sign and decimal digits,
  surrounding whitespace ignored; anything else is a \<open>ValueError\<close> (\<open>None\<close>).
\<close>

definition py_int :: "string \<Rightarrow> int option" where
  "py_int t =
     (let s = py_strip t;
          (neg, ds) = (if s \<noteq> [] \<and> hd s = CHR ''-'' then (True, tl s)
                       else if s \<noteq> [] \<and> hd s = CHR ''+'' then (False, tl s)
                       else (False, s))
      in if ds \<noteq> [] \<and> list_all is_digit ds
         then Some (if neg then - int (digits_val ds) else int (digits_val ds))
         else None)"

text \<open>
  A reader of plain decimal numerals (optional sign, digits, optional point and digits,
  surrounding whitespace ignored), giving the exact value; it instantiates the
  parameter \<open>pf\<close> in the concrete runs below.
\<close>

definition dec_float :: "string \<Rightarrow> real option" where
  "dec_float t =
     (let s = py_strip t;
          (neg, body) = (if s \<noteq> [] \<and> hd s = CHR ''-'' then (True, tl s)
                         else if s \<noteq> [] \<and> hd s = CHR ''+'' then (False, tl s)
                         else (False, s));
          ip = takeWhile is_digit body;
          rest = dropWhile is_digit body;
          fp = (if rest \<noteq> [] \<and> hd rest = CHR ''.'' then tl rest else [])
      in if (rest = [] \<or> hd rest = CHR ''.'') \<and> list_all is_digit fp \<and> (ip \<noteq> [] \<or> fp \<noteq> [])
         then (let v = real (digits_val ip) + real (digits_val fp) / 10 ^ length fp
               in Some (if neg then - v else v))
         else None)"


section \<open>Enumerations, command tables and the driver object\<close>

datatype BANDWITH = KHZ_10 | KHZ_1 | HZ_100 | HZ_10

fun BANDWITH_value :: "BANDWITH \<Rightarrow> string" where
  "BANDWITH_value KHZ_10 = ''10 kHz''"
| "BANDWITH_value KHZ_1 = ''1 kHz''"
| "BANDWITH_value HZ_100 = ''100 Hz''"
| "BANDWITH_value HZ_10 = ''10 Hz''"

datatype INITIAL_AUTO_ZERO = NONE | AUTO_ZERO | AUTO_ZERO_RESET

fun INITIAL_AUTO_ZERO_value :: "INITIAL_AUTO_ZERO \<Rightarrow> string" where
  "INITIAL_AUTO_ZERO_value NONE = ''None''"
| "INITIAL_AUTO_ZERO_value AUTO_ZERO = ''Auto zero''"
| "INITIAL_AUTO_ZERO_value AUTO_ZERO_RESET = ''Auto zero reset''"

datatype GAIN = X1 | X10 | X100 | X1000 | X10000 | X100000 | AUTO

fun GAIN_value :: "GAIN \<Rightarrow> string" where
  "GAIN_value X1 = ''x1''"
| "GAIN_value X10 = ''x10''"
| "GAIN_value X100 = ''x100''"
| "GAIN_value X1000 = ''x1000''"
| "GAIN_value X10000 = ''x10000''"
| "GAIN_value X100000 = ''x1000000''"
| "GAIN_value AUTO = ''auto-gain''"

datatype UNITS =
    NANOAMPERE | MICROAMPERE | MILLIAMPERE | AMPERE
  | NANOWATTS | MICROWATTS | MILLIWATTS | WATTS
  | NANOWATTS_PER_SQUARE_CENTIMETER | MICROWATTS_PER_SQUARE_CENTIMETER
  | MILLIWATTS_PER_SQUARE_CENTIMETER | WATTS_PER_SQUARE_CENTIMETER
  | DECIBEL_MILLIWATTS

text \<open>The micro sign is the character \<open>0xB5\<close>, the superscript two is \<open>0xB2\<close>.\<close>

fun UNITS_value :: "UNITS \<Rightarrow> string" where
  "UNITS_value NANOAMPERE = ''nA''"
| "UNITS_value MICROAMPERE = CHR 0xB5 # ''A''"
| "UNITS_value MILLIAMPERE = ''mA''"
| "UNITS_value AMPERE = ''A''"
| "UNITS_value NANOWATTS = ''nW''"
| "UNITS_value MICROWATTS = CHR 0xB5 # ''w''"
| "UNITS_value MILLIWATTS = ''mW''"
| "UNITS_value WATTS = ''W''"
| "UNITS_value NANOWATTS_PER_SQUARE_CENTIMETER = ''nW/cm'' @ [CHR 0xB2]"
| "UNITS_value MICROWATTS_PER_SQUARE_CENTIMETER = CHR 0xB5 # ''W/cm'' @ [CHR 0xB2]"
| "UNITS_value MILLIWATTS_PER_SQUARE_CENTIMETER = ''mW/cm'' @ [CHR 0xB2]"
| "UNITS_value WATTS_PER_SQUARE_CENTIMETER = ''W/cm'' @ [CHR 0xB2]"
| "UNITS_value DECIBEL_MILLIWATTS = ''dBm''"

definition bandwith_steps :: "(string \<times> string) list" where
  "bandwith_steps = [(''10 kHz'', ''B1''), (''1 kHz'', ''B2''), (''100 Hz'', ''B3''), (''10 Hz'', ''B4'')]"

definition gain_steps :: "(string \<times> string) list" where
  "gain_steps = [(''x1'', ''V1''), (''x10'', ''V2''), (''x100'', ''V3''), (''x1000'', ''V4''),
                 (''x10000'', ''V5''), (''x100000'', ''V6''), (''auto-gain'', ''auto-gain'')]"

text \<open>\<open>dict(zip(d.values(), d.keys()))\<close>: a later pair overrides an earlier one.\<close>

definition inverted :: "(string \<times> string) list \<Rightarrow> string \<rightharpoonup> string" where
  "inverted d = map_of (rev (zip (map snd d) (map fst d)))"

text \<open>
  The transport handle. \<open>pending\<close> holds the messages the instrument will deliver, one per
  call of \<open>_opm_recv\<close>, as decoded text; a call that finds none times out. \<open>written\<close> is
  the log of the commands passed to \<open>write\<close>, oldest first.
\<close>

record device =
  pending :: "string list"
  written :: "string list"

record OPM500 =
  unit :: string
  device :: "device option"
  sensitivity :: real
  wavelength :: int
  initial_auto_zero :: string
  invert_input_polarity :: bool
  bandwith :: string
  autogain_gain :: "int option"
  gain :: string
  max_gain :: int
  filter_factor :: real
  aperture :: real
  opm_detector_min_wavelength :: "int option"
  opm_detector_max_wavelength :: "int option"

definition init_OPM500 :: OPM500 where
  "init_OPM500 =
     \<lparr> unit = UNITS_value MICROAMPERE, device = None, sensitivity = 1, wavelength = 660,
       initial_auto_zero = INITIAL_AUTO_ZERO_value NONE, invert_input_polarity = False,
       bandwith = BANDWITH_value KHZ_10, autogain_gain = None, gain = GAIN_value X1,
       max_gain = int (length gain_steps) - 1, filter_factor = 1, aperture = 7,
       opm_detector_min_wavelength = None, opm_detector_max_wavelength = None \<rparr>"

section \<open>The command channel\<close>

definition opm_send :: "string \<Rightarrow> OPM500 \<Rightarrow> unit res \<times> OPM500" where
  "opm_send msg s =
     (case device s of
        None \<Rightarrow> (Inl PortNotOpen, s)
      | Some d \<Rightarrow> (Inr (), s\<lparr>device := Some (d\<lparr>written := written d @ [msg]\<rparr>)\<rparr>))"

text \<open>The text \<open>_opm_recv\<close> returns for a delivered message: carriage returns removed, then stripped.\<close>

definition recv_text :: "string \<Rightarrow> string" where
  "recv_text msg = py_strip (py_replace [CHR 0x0D] [] msg)"

definition opm_recv :: "OPM500 \<Rightarrow> string res \<times> OPM500" where
  "opm_recv s =
     (case device s of
        None \<Rightarrow> (Inl PortNotOpen, s)
      | Some d \<Rightarrow>
          (case pending d of
             [] \<Rightarrow> (Inl TimeoutError, s)
           | msg # rest \<Rightarrow> (Inr (recv_text msg), s\<lparr>device := Some (d\<lparr>pending := rest\<rparr>)\<rparr>)))"

section \<open>Configuration setters and getters\<close>

definition opm_set_polarity :: "bool \<Rightarrow> OPM500 \<Rightarrow> bool res \<times> OPM500" where
  "opm_set_polarity invert_polarity s =
     (let polarity_command = (if invert_polarity = False then ''N'' else ''C'') in
      case opm_send (''$'' @ polarity_command) s of
        (Inl e, s1) \<Rightarrow> (Inl e, s1)
      | (Inr _, s1) \<Rightarrow>
          (case opm_recv s1 of
             (Inl e, s2) \<Rightarrow> (Inl e, s2)
           | (Inr recv, s2) \<Rightarrow>
               if recv = polarity_command @ '' OK''
               then (Inr True, s2\<lparr>invert_input_polarity := invert_polarity\<rparr>)
               else (Inr False, s2)))"

definition opm_get_wavelength :: "OPM500 \<Rightarrow> int" where
  "opm_get_wavelength s = wavelength s"

text \<open>The loop \<open>for i in wavelength: self._opm_send(i)\<close>.\<close>

fun send_each :: "string \<Rightarrow> OPM500 \<Rightarrow> unit res \<times> OPM500" where
  "send_each [] s = (Inr (), s)"
| "send_each (i # rest) s =
     (case opm_send [i] s of
        (Inl e, s1) \<Rightarrow> (Inl e, s1)
      | (Inr _, s1) \<Rightarrow> send_each rest s1)"

text \<open>
  \<open>range(lo, hi + 1)\<close> needs both detector bounds to be integers: before initialization
  they are \<open>None\<close> and the membership test raises a \<open>TypeError\<close>.
\<close>

definition opm_set_wavelength ::
  "(string \<Rightarrow> real option) \<Rightarrow> int \<Rightarrow> OPM500 \<Rightarrow> bool res \<times> OPM500" where
  "opm_set_wavelength pf w s =
     (case (opm_detector_min_wavelength s, opm_detector_max_wavelength s) of
        (Some lo, Some hi) \<Rightarrow>
          if \<not> (lo \<le> w \<and> w < hi + 1) then (Inr False, s)
          else
            (let tmp_wavelength = w; wl = zfill (py_str w) 4 in
             case opm_send ''L'' s of
               (Inl e, s1) \<Rightarrow> (Inl e, s1)
             | (Inr _, s1) \<Rightarrow>
                 (case send_each wl s1 of
                    (Inl e, s2) \<Rightarrow> (Inl e, s2)
                  | (Inr _, s2) \<Rightarrow>
                      (case opm_recv s2 of
                         (Inl e, s3) \<Rightarrow> (Inl e, s3)
                       | (Inr recv, s3) \<Rightarrow>
                           if py_count ''KF:'' recv > 0
                           then
                             (let s4 = s3\<lparr>wavelength := tmp_wavelength\<rparr> in
                              case pf (py_strip (py_replace '','' ''.'' (py_replace ''KF:'' [] recv))) of
                                None \<Rightarrow> (Inl ValueError, s4)
                              | Some kf \<Rightarrow> (Inr True, s4\<lparr>sensitivity := kf\<rparr>))
                           else (Inr False, s3))))
      | _ \<Rightarrow> (Inl TypeError, s))"

datatype bandwith_arg = BandwithStr string | BandwithEnum BANDWITH

definition opm_set_bandwith :: "bandwith_arg \<Rightarrow> OPM500 \<Rightarrow> bool res \<times> OPM500" where
  "opm_set_bandwith arg s =
     (let bw = (case arg of BandwithEnum b \<Rightarrow> BANDWITH_value b | BandwithStr t \<Rightarrow> t) in
      case map_of bandwith_steps bw of
        None \<Rightarrow> (Inl InvalidChoice, s)
      | Some code \<Rightarrow>
          (case opm_send code s of
             (Inl e, s1) \<Rightarrow> (Inl e, s1)
           | (Inr _, s1) \<Rightarrow>
               (case opm_recv s1 of
                  (Inl e, s2) \<Rightarrow> (Inl e, s2)
                | (Inr recv, s2) \<Rightarrow>
                    if recv = code @ '' OK''
                    then (Inr True, s2\<lparr>bandwith := bw\<rparr>)
                    else (Inr False, s2))))"

definition opm_get_gain :: "OPM500 \<Rightarrow> string option res \<times> OPM500" where
  "opm_get_gain s =
     (case opm_send ''V?'' s of
        (Inl e, s1) \<Rightarrow> (Inl e, s1)
      | (Inr _, s1) \<Rightarrow>
          (case opm_recv s1 of
             (Inl e, s2) \<Rightarrow> (Inl e, s2)
           | (Inr received, s2) \<Rightarrow>
               (case splitlines received of
                  [] \<Rightarrow> (Inl IndexError, s2)
                | g0 # gs \<Rightarrow>
                    if g0 \<noteq> ''V? OK'' then (Inr None, s2)
                    else
                      (case gs of
                         [] \<Rightarrow> (Inl IndexError, s2)
                       | g1 # _ \<Rightarrow>
                           (case inverted gain_steps g1 of
                              None \<Rightarrow> (Inr None, s2)
                            | Some key \<Rightarrow>
                                (let s3 = (if gain s2 \<noteq> ''auto-gain'' then s2\<lparr>gain := key\<rparr> else s2) in
                                 case map_of gain_steps key of
                                   None \<Rightarrow> (Inl KeyError, s3)
                                 | Some code \<Rightarrow>
                                     (case py_int (slice_from code 1) of
                                        None \<Rightarrow> (Inl ValueError, s3)
                                      | Some n \<Rightarrow> (Inr (Some key), s3\<lparr>autogain_gain := Some n\<rparr>))))))))"

datatype gain_arg = GainStr string | GainEnum GAIN

definition opm_set_gain :: "gain_arg \<Rightarrow> OPM500 \<Rightarrow> bool res \<times> OPM500" where
  "opm_set_gain arg s =
     (let g = (case arg of GainEnum e \<Rightarrow> GAIN_value e | GainStr t \<Rightarrow> t) in
      case map_of gain_steps g of
        None \<Rightarrow> (Inl InvalidChoice, s)
      | Some code \<Rightarrow>
          if g = ''auto-gain'' then (Inr True, s\<lparr>gain := g\<rparr>)
          else
            (case opm_send code s of
               (Inl e, s1) \<Rightarrow> (Inl e, s1)
             | (Inr _, s1) \<Rightarrow>
                 (case opm_recv s1 of
                    (Inl e, s2) \<Rightarrow> (Inl e, s2)
                  | (Inr recv, s2) \<Rightarrow>
                      if recv = code @ '' OK''
                      then
                        (let s3 = (if gain s2 \<noteq> ''auto-gain'' then s2\<lparr>gain := g\<rparr> else s2) in
                         case py_int (slice_from code 1) of
                           None \<Rightarrow> (Inl ValueError, s3)
                         | Some n \<Rightarrow> (Inr True, s3\<lparr>autogain_gain := Some n\<rparr>))
                      else (Inr False, s2))))"

text \<open>The settling delays (\<open>sleep\<close>) after an acknowledged auto zero have no effect on the state.\<close>

definition opm_set_auto_zero :: "OPM500 \<Rightarrow> bool res \<times> OPM500" where
  "opm_set_auto_zero s =
     (case opm_send ''$A'' s of
        (Inl e, s1) \<Rightarrow> (Inl e, s1)
      | (Inr _, s1) \<Rightarrow>
          (case opm_recv s1 of
             (Inl e, s2) \<Rightarrow> (Inl e, s2)
           | (Inr recv, s2) \<Rightarrow>
               if py_count ''Gain: '' recv > 0
               then
                 (let s3 = s2\<lparr>initial_auto_zero := INITIAL_AUTO_ZERO_value AUTO_ZERO\<rparr> in
                  case py_int (slice_from recv (-1)) of
                    None \<Rightarrow> (Inl ValueError, s3)
                  | Some n \<Rightarrow> (Inr True, s3\<lparr>max_gain := n\<rparr>))
               else if py_count ''A OK'' recv > 0
               then (Inr True, s2\<lparr>initial_auto_zero := INITIAL_AUTO_ZERO_value AUTO_ZERO,
                                   max_gain := int (length gain_steps) - 1\<rparr>)
               else (Inr False, s2)))"

definition opm_set_auto_zero_reset :: "OPM500 \<Rightarrow> bool res \<times> OPM500" where
  "opm_set_auto_zero_reset s =
     (case opm_send ''$R'' s of
        (Inl e, s1) \<Rightarrow> (Inl e, s1)
      | (Inr _, s1) \<Rightarrow>
          (case opm_recv s1 of
             (Inl e, s2) \<Rightarrow> (Inl e, s2)
           | (Inr recv, s2) \<Rightarrow>
               if recv = ''R OK''
               then (Inr True, s2\<lparr>initial_auto_zero := INITIAL_AUTO_ZERO_value AUTO_ZERO,
                                   max_gain := int (length gain_steps) - 1\<rparr>)
               else (Inr False, s2)))"


section \<open>Automatic gain search\<close>

definition opm_get_single_raw_measure :: "OPM500 \<Rightarrow> string res \<times> OPM500" where
  "opm_get_single_raw_measure s =
     (case opm_send ''$E'' s of
        (Inl e, s1) \<Rightarrow> (Inl e, s1)
      | (Inr _, s1) \<Rightarrow>
          (case opm_recv s1 of
             (Inl e, s2) \<Rightarrow> (Inl e, s2)
           | (Inr recv, s2) \<Rightarrow> (Inr (py_strip (slice_from recv 1)), s2)))"

text \<open>The percentage of full scale for the tracked level; \<open>0.0\<close> when no branch applies.\<close>

definition full_scale_level :: "int option \<Rightarrow> real \<Rightarrow> real" where
  "full_scale_level g amplitude =
     (if g = Some 1 then amplitude / 122.85
      else if g = Some 2 then amplitude / 12.285
      else if g = Some 3 then amplitude / 1.2285
      else if g = Some 4 then amplitude / 122.85
      else if g = Some 5 then amplitude / 12.285
      else if g = Some 6 then amplitude / 1.2285
      else 0)"

text \<open>
  One adjustment: the tracked level is overwritten, the gain named \<open>V<level>\<close> is set
  through \<open>opm_set_gain\<close> (its boolean result is ignored) and a fresh raw reading is taken.
\<close>

definition adjust_gain :: "int \<Rightarrow> OPM500 \<Rightarrow> string res \<times> OPM500" where
  "adjust_gain n s =
     (let s1 = s\<lparr>autogain_gain := Some n\<rparr> in
      case inverted gain_steps (''V'' @ py_str n) of
        None \<Rightarrow> (Inl KeyError, s1)
      | Some key \<Rightarrow>
          (case opm_set_gain (GainStr key) s1 of
             (Inl e, s2) \<Rightarrow> (Inl e, s2)
           | (Inr _, s2) \<Rightarrow> opm_get_single_raw_measure s2))"

text \<open>
  With no tracked level (\<open>None\<close>) after the gain query, \<open>level\<close> is \<open>0.0\<close>: the first
  comparison is false without touching the level, and the second one compares \<open>None\<close>
  with an integer, a \<open>TypeError\<close>.
\<close>

function opm_autogain ::
  "(string \<Rightarrow> real option) \<Rightarrow> string \<Rightarrow> int \<Rightarrow> int \<Rightarrow> OPM500 \<Rightarrow> string res \<times> OPM500" where
  "opm_autogain pf tmp_amplitude recursion last_operation s =
     (if recursion \<ge> int (length gain_steps) then (Inr tmp_amplitude, s)
      else
        (case (if autogain_gain s = None then opm_get_gain s else (Inr None, s)) of
           (Inl e, s1) \<Rightarrow> (Inl e, s1)
         | (Inr _, s1) \<Rightarrow>
             (case pf (py_replace '','' ''.'' (slice_to tmp_amplitude (-2))) of
                None \<Rightarrow> (Inl ValueError, s1)
              | Some amplitude \<Rightarrow>
                  (case autogain_gain s1 of
                     None \<Rightarrow> (Inl TypeError, s1)
                   | Some g \<Rightarrow>
                       if full_scale_level (Some g) amplitude > 90 \<and> g > 1 then
                         (case adjust_gain (g - 1) s1 of
                            (Inl e, s2) \<Rightarrow> (Inl e, s2)
                          | (Inr m, s2) \<Rightarrow> opm_autogain pf m (recursion + 1) 1 s2)
                       else if full_scale_level (Some g) amplitude < 8 \<and> g < max_gain s1 then
                         (case adjust_gain (g + 1) s1 of
                            (Inl e, s2) \<Rightarrow> (Inl e, s2)
                          | (Inr m, s2) \<Rightarrow>
                              opm_autogain pf m
                                ((if last_operation = 1 then int (length gain_steps) else recursion) + 1)
                                2 s2)
                       else (Inr tmp_amplitude, s1)))))"
  by pat_completeness auto
termination
  by (relation "measure (\<lambda>(pf, tmp, recursion, last, s). nat (int (length gain_steps) + 1 - recursion))")
     (auto simp: gain_steps_def)

text \<open>
  The adjustments of a search are observed on the transport: every adjustment writes
  exactly one gain command \<open>V1..V6\<close>, and nothing else in the search writes one.
\<close>

definition gain_commands :: "OPM500 \<Rightarrow> nat" where
  "gain_commands s =
     (case device s of
        None \<Rightarrow> 0
      | Some d \<Rightarrow> length (filter (\<lambda>c. c \<in> set [''V1'', ''V2'', ''V3'', ''V4'', ''V5'', ''V6'']) (written d)))"

section \<open>Measurement pipeline\<close>

text \<open>\<open>round(x, n)\<close>: to the nearest multiple of \<open>10^-n\<close>, a tie going to the even neighbour.\<close>

definition round_half_even :: "real \<Rightarrow> int" where
  "round_half_even y =
     (let f = \<lfloor>y\<rfloor>; d = y - of_int f in
      if d < 1 / 2 then f else if d > 1 / 2 then f + 1 else if even f then f else f + 1)"

definition py_round :: "real \<Rightarrow> nat \<Rightarrow> real" where
  "py_round x n = of_int (round_half_even (x * 10 ^ n)) / 10 ^ n"

text \<open>
  The unit suffix and the magnitude of a raw reading, brought to the nanoampere base:
  \<open>unit = amplitude[amplitude.find("A")-1:]\<close>, \<open>float(amplitude[:-2].replace(",", "."))\<close>,
  times 1000 when the suffix is \<open>uA\<close>.
\<close>

definition reading_base :: "(string \<Rightarrow> real option) \<Rightarrow> string \<Rightarrow> real res" where
  "reading_base pf amplitude =
     (let u = slice_from amplitude (py_find amplitude CHR ''A'' - 1) in
      case pf (py_replace '','' ''.'' (slice_to amplitude (-2))) of
        None \<Rightarrow> Inl ValueError
      | Some a \<Rightarrow> Inr (if u = ''uA'' then a * 1000 else a))"

text \<open>The prefix of the selected unit decides scale and rounding; \<open>math.log10\<close> raises on a non-positive argument.\<close>

definition scale_to_unit :: "string \<Rightarrow> real \<Rightarrow> real res" where
  "scale_to_unit u amplitude =
     (if startswith u ''n'' then Inr (py_round amplitude 3)
      else if startswith u [CHR 0xB5] then Inr (py_round (amplitude / 1000) 6)
      else if startswith u ''m'' then Inr (py_round (amplitude / 1000000) 9)
      else if u = ''dBm'' then
        (if amplitude / 1000000 \<le> 0 then Inl ValueError
         else Inr (py_round (10 * log 10 (amplitude / 1000000)) 5))
      else Inr (py_round (amplitude / 1000000000) 12))"

definition current_units :: "string list" where
  "current_units = [''nA'', CHR 0xB5 # ''A'', ''mA'', ''A'']"

definition irradiance_units :: "string list" where
  "irradiance_units = [''nW/cm'' @ [CHR 0xB2], CHR 0xB5 # ''W/cm'' @ [CHR 0xB2],
                       ''mW/cm'' @ [CHR 0xB2], ''W/cm'' @ [CHR 0xB2]]"

definition opm_get_measurement ::
  "(string \<Rightarrow> real option) \<Rightarrow> OPM500 \<Rightarrow> (real \<times> string) res \<times> OPM500" where
  "opm_get_measurement pf s =
     (case opm_get_single_raw_measure s of
        (Inl e, s1) \<Rightarrow> (Inl e, s1)
      | (Inr raw, s1) \<Rightarrow>
          (case (if gain s1 = ''auto-gain'' then opm_autogain pf raw 0 0 s1 else (Inr raw, s1)) of
             (Inl e, s2) \<Rightarrow> (Inl e, s2)
           | (Inr amplitude, s2) \<Rightarrow>
               (case reading_base pf amplitude of
                  Inl e \<Rightarrow> (Inl e, s2)
                | Inr a \<Rightarrow>
                    (let sens = (if unit s2 \<notin> set current_units then sensitivity s2 else 1) in
                     if sens * filter_factor s2 = 0 then (Inl ZeroDivisionError, s2)
                     else
                       (case scale_to_unit (unit s2) (a / (sens * filter_factor s2)) of
                          Inl e \<Rightarrow> (Inl e, s2)
                        | Inr v \<Rightarrow>
                            if unit s2 \<in> set irradiance_units
                            then
                              (if ((aperture s2)\<^sup>2 / 400) * pi = 0 then (Inl ZeroDivisionError, s2)
                               else (Inr (v / (((aperture s2)\<^sup>2 / 400) * pi), unit s2), s2))
                            else (Inr (v, unit s2), s2))))))"

section \<open>Identity block: the model marker\<close>

text \<open>
  \<open>_initialize\<close> starts with
  \<open>re.sub(r"^(opm500)(?:\n|.*$)*", "\\1", info, flags=re.MULTILINE | re.IGNORECASE) != "OPM500"\<close>.
  The pattern matches at the first start of a line where the six characters of the marker
  follow in either case; its tail \<open>(?:\n|.*$)*\<close> then runs to the end of the text, so the
  leftmost match is the only one. The substitution keeps the text before the match and
  replaces the match by the six characters as they stand in the text.
\<close>

definition marker_at :: "string \<Rightarrow> bool" where
  "marker_at s = list_all2 (\<lambda>c alts. c \<in> set alts) (take 6 s) [''oO'', ''pP'', ''mM'', ''5'', ''0'', ''0'']"

fun re_sub_marker :: "bool \<Rightarrow> string \<Rightarrow> string" where
  "re_sub_marker line_start [] = []"
| "re_sub_marker line_start (c # cs) =
     (if line_start \<and> marker_at (c # cs) then take 6 (c # cs)
      else c # re_sub_marker (c = CHR 0x0A) cs)"

definition initialize_marker_check :: "string \<Rightarrow> bool" where
  "initialize_marker_check info = (re_sub_marker True info = ''OPM500'')"


text \<open>The object after one exchange: the commands \<open>cmds\<close> written, one message consumed.\<close>

abbreviation exchanged :: "OPM500 \<Rightarrow> device \<Rightarrow> string list \<Rightarrow> string list \<Rightarrow> OPM500" where
  "exchanged s d cmds rest \<equiv> s\<lparr>device := Some (d\<lparr>pending := rest, written := written d @ cmds\<rparr>)\<rparr>"

section \<open>Auxiliary facts\<close>

declare nat_digits.simps [simp del]
declare opm_autogain.simps [simp del]

lemmas text_eval = recv_text_def py_strip_def py_isspace_def startswith_def slice_from_def slice_to_def

lemma opm_send_open:
  "device s = Some d \<Longrightarrow> opm_send msg s = (Inr (), s\<lparr>device := Some (d\<lparr>written := written d @ [msg]\<rparr>)\<rparr>)"
  by (simp add: opm_send_def)

lemma opm_recv_msg:
  "device s = Some d \<Longrightarrow> pending d = msg # rest \<Longrightarrow>
   opm_recv s = (Inr (recv_text msg), s\<lparr>device := Some (d\<lparr>pending := rest\<rparr>)\<rparr>)"
  by (simp add: opm_recv_def)

lemma nat_digits_length2: "10 \<le> m \<Longrightarrow> 2 \<le> length (nat_digits m)"
proof -
  assume "10 \<le> m"
  moreover have "1 \<le> length (nat_digits (m div 10))"
    by (subst nat_digits.simps) simp
  ultimately show ?thesis
    by (subst nat_digits.simps) simp
qed

lemma py_str_single:
  assumes "py_str n = [c]"
  shows "n \<in> {0, 1, 2, 3, 4, 5, 6, 7, 8, 9}"
proof -
  have "nat_digits m \<noteq> []" for m
    by (subst nat_digits.simps) simp
  with assms have "0 \<le> n"
    by (auto simp: py_str_def split: if_splits)
  moreover have "n < 10"
  proof (rule ccontr)
    assume "\<not> n < 10"
    with \<open>0 \<le> n\<close> have "2 \<le> length (nat_digits (nat n))"
      by (intro nat_digits_length2) simp
    with assms \<open>0 \<le> n\<close> show False
      by (simp add: py_str_def)
  qed
  ultimately have "n \<in> set [0..9]"
    unfolding set_upto by simp
  then show ?thesis
    by (simp add: upto_rec1)
qed

lemma py_str_digit:
  "py_str 0 = ''0''" "py_str 1 = ''1''" "py_str 2 = ''2''" "py_str 3 = ''3''" "py_str 4 = ''4''"
  "py_str 5 = ''5''" "py_str 6 = ''6''" "py_str 7 = ''7''" "py_str 8 = ''8''" "py_str 9 = ''9''"
  by (simp_all add: py_str_def nat_digits.simps digit_char_def)

text \<open>The fixed gains are the six entries of the table whose command is \<open>V<n>\<close>.\<close>

lemma gain_code_level:
  assumes "map_of gain_steps g = Some (''V'' @ py_str n)"
  shows "(g, n) \<in> set [(''x1'', 1), (''x10'', 2), (''x100'', 3), (''x1000'', 4), (''x10000'', 5), (''x100000'', 6)]"
proof -
  from assms have "\<exists>c. py_str n = [c]"
    by (auto simp: gain_steps_def eq_commute [of _ "py_str n"] split: if_splits)
  then obtain c where c: "py_str n = [c]" ..
  then have "n \<in> {0, 1, 2, 3, 4, 5, 6, 7, 8, 9}"
    by (rule py_str_single)
  with assms show ?thesis
    by (auto simp: gain_steps_def py_str_digit split: if_splits)
qed

lemma gain_code_facts:
  assumes "map_of gain_steps g = Some (''V'' @ py_str n)"
  shows "g \<noteq> ''auto-gain''" and "py_int (slice_from (''V'' @ py_str n) 1) = Some n"
  using gain_code_level [OF assms]
  by (auto simp: py_str_digit py_int_def text_eval is_digit_def digits_val_def digit_val_def)

lemmas num_eval = py_str_def nat_digits.simps digit_char_def zfill_def py_int_def is_digit_def
  digits_val_def digit_val_def

lemma send_each_open:
  "device s = Some d \<Longrightarrow>
   send_each cs s = (Inr (), s\<lparr>device := Some (d\<lparr>written := written d @ map (\<lambda>c. [c]) cs\<rparr>)\<rparr>)"
proof (induction cs arbitrary: s d)
  case Nil
  then show ?case by simp
next
  case (Cons c cs)
  then show ?case by (simp add: opm_send_open)
qed

section \<open>Polarity\<close>

text \<open>
  C6, as the driver behaves: \<open>opm_set_polarity\<close> writes the two-character command
  \<open>$N\<close> for normal and \<open>$C\<close> for inverted polarity; when the reply is \<open>N OK\<close>,
  respectively \<open>C OK\<close>, it stores the requested polarity and returns \<open>True\<close>.
\<close>

theorem opm_set_polarity_acknowledged:
  assumes "device s = Some d" and "pending d = msg # rest"
    and "recv_text msg = (if invert_polarity then ''C OK'' else ''N OK'')"
  shows "opm_set_polarity invert_polarity s =
           (Inr True,
            (exchanged s d [if invert_polarity then ''$C'' else ''$N''] rest)
              \<lparr>invert_input_polarity := invert_polarity\<rparr>)"
  using assms by (simp add: opm_set_polarity_def opm_send_open opm_recv_msg)

theorem opm_set_polarity_acknowledged_witness:
  "opm_set_polarity True (init_OPM500\<lparr>device := Some \<lparr>pending = [''C OK'' @ [CHR 0x0D]], written = []\<rparr>\<rparr>) =
     (Inr True, init_OPM500\<lparr>device := Some \<lparr>pending = [], written = [''$C'']\<rparr>,
                            invert_input_polarity := True\<rparr>)"
  using opm_set_polarity_acknowledged [of "init_OPM500\<lparr>device := Some \<lparr>pending = [''C OK'' @ [CHR 0x0D]], written = []\<rparr>\<rparr>"
      "\<lparr>pending = [''C OK'' @ [CHR 0x0D]], written = []\<rparr>" "''C OK'' @ [CHR 0x0D]" "[]" True]
  by (simp add: text_eval)

text \<open>The command written for normal polarity is \<open>$N\<close>, not the one-character \<open>N\<close>.\<close>

theorem opm_set_polarity_command_counterexample:
  "map_option written (device (snd (opm_set_polarity False
      (init_OPM500\<lparr>device := Some \<lparr>pending = [''N OK''], written = []\<rparr>\<rparr>)))) = Some [''$N'']
   \<and> ''$N'' \<noteq> ''N''"
  by (simp add: opm_set_polarity_def opm_send_def opm_recv_def text_eval)

section \<open>Fixed gain\<close>

text \<open>
  C5, as the driver behaves: for each fixed gain (the table entry \<open>g\<close> with command
  \<open>V<n>\<close>, \<open>n\<close> from 1 to 6), \<open>opm_set_gain\<close> answered by exactly \<open>V<n> OK\<close>
  returns \<open>True\<close> and sets the tracked numeric level to \<open>n\<close>; the gain mode becomes
  \<open>g\<close> unless it was \<open>auto-gain\<close>, in which case it stays \<open>auto-gain\<close>.
\<close>

theorem opm_set_gain_acknowledged:
  assumes "device s = Some d" and "pending d = msg # rest"
    and "(case arg of GainEnum e \<Rightarrow> GAIN_value e | GainStr t \<Rightarrow> t) = g"
    and "map_of gain_steps g = Some (''V'' @ py_str n)"
    and "recv_text msg = ''V'' @ py_str n @ '' OK''"
  shows "opm_set_gain arg s =
           (Inr True,
            (exchanged s d [''V'' @ py_str n] rest)
              \<lparr>gain := (if gain s = ''auto-gain'' then ''auto-gain'' else g),
               autogain_gain := Some n\<rparr>)"
  using assms(1,2,3,4,5) gain_code_facts [OF assms(4)]
  by (simp add: opm_set_gain_def opm_send_open opm_recv_msg)

theorem opm_set_gain_acknowledged_witness:
  "opm_set_gain (GainEnum X100) (init_OPM500\<lparr>device := Some \<lparr>pending = [''V3 OK''], written = []\<rparr>\<rparr>) =
     (Inr True, init_OPM500\<lparr>device := Some \<lparr>pending = [], written = [''V3'']\<rparr>,
                            gain := ''x100'', autogain_gain := Some 3\<rparr>)"
  using opm_set_gain_acknowledged [of "init_OPM500\<lparr>device := Some \<lparr>pending = [''V3 OK''], written = []\<rparr>\<rparr>"
      "\<lparr>pending = [''V3 OK''], written = []\<rparr>" "''V3 OK''" "[]" "GainEnum X100" "''x100''" 3]
  by (simp add: text_eval py_str_digit gain_steps_def init_OPM500_def)

text \<open>From the automatic mode, an acknowledged fixed gain leaves the mode automatic.\<close>

theorem opm_set_gain_from_auto_counterexample:
  "opm_set_gain (GainStr ''x10'')
     (init_OPM500\<lparr>device := Some \<lparr>pending = [''V2 OK''], written = []\<rparr>, gain := ''auto-gain''\<rparr>) =
     (Inr True, init_OPM500\<lparr>device := Some \<lparr>pending = [], written = [''V2'']\<rparr>,
                            gain := ''auto-gain'', autogain_gain := Some 2\<rparr>)
   \<and> ''auto-gain'' \<noteq> ''x10''"
  by (simp add: opm_set_gain_def opm_send_def opm_recv_def gain_steps_def text_eval
        py_int_def is_digit_def digits_val_def digit_val_def)

text \<open>
  The member \<open>X100000\<close> of the enumeration carries the text \<open>x1000000\<close>, which is not a
  key of the gain table (the key is \<open>x100000\<close>): the call raises before anything is sent.
\<close>

lemma opm_set_gain_enum_X100000:
  "opm_set_gain (GainEnum X100000) s = (Inl InvalidChoice, s)"
  by (simp add: opm_set_gain_def gain_steps_def)

section \<open>Unacknowledged setters\<close>

text \<open>
  C1, as the driver behaves: when the reply is not accepted as the acknowledgment, each
  setter returns \<open>False\<close> and the object is unchanged apart from the transport (the
  command written, the message consumed). The reply is rejected when it differs from
  \<open><code> OK\<close> for polarity, bandwidth and fixed gain and from \<open>R OK\<close> for the auto
  zero reset, when it does not contain \<open>KF:\<close> for the wavelength, and when it contains
  neither \<open>Gain: \<close> nor \<open>A OK\<close> for the auto zero.
\<close>

theorem setters_unacknowledged_unchanged:
  assumes "device s = Some d" and "pending d = msg # rest"
  shows
    "(recv_text msg \<noteq> (if invert_polarity then ''C OK'' else ''N OK'') \<longrightarrow>
        opm_set_polarity invert_polarity s =
          (Inr False, exchanged s d [if invert_polarity then ''$C'' else ''$N''] rest))
   \<and> (map_of bandwith_steps (case barg of BandwithEnum b \<Rightarrow> BANDWITH_value b | BandwithStr t \<Rightarrow> t) = Some bcode
          \<and> recv_text msg \<noteq> bcode @ '' OK'' \<longrightarrow>
        opm_set_bandwith barg s = (Inr False, exchanged s d [bcode] rest))
   \<and> (map_of gain_steps (case garg of GainEnum e \<Rightarrow> GAIN_value e | GainStr t \<Rightarrow> t) = Some gcode
          \<and> (case garg of GainEnum e \<Rightarrow> GAIN_value e | GainStr t \<Rightarrow> t) \<noteq> ''auto-gain''
          \<and> recv_text msg \<noteq> gcode @ '' OK'' \<longrightarrow>
        opm_set_gain garg s = (Inr False, exchanged s d [gcode] rest))
   \<and> (opm_detector_min_wavelength s = Some lo \<and> opm_detector_max_wavelength s = Some hi
          \<and> lo \<le> w \<and> w \<le> hi \<and> py_count ''KF:'' (recv_text msg) = 0 \<longrightarrow>
        opm_set_wavelength pf w s =
          (Inr False, exchanged s d (''L'' # map (\<lambda>c. [c]) (zfill (py_str w) 4)) rest))
   \<and> (py_count ''Gain: '' (recv_text msg) = 0 \<and> py_count ''A OK'' (recv_text msg) = 0 \<longrightarrow>
        opm_set_auto_zero s = (Inr False, exchanged s d [''$A''] rest))
   \<and> (recv_text msg \<noteq> ''R OK'' \<longrightarrow>
        opm_set_auto_zero_reset s = (Inr False, exchanged s d [''$R''] rest))"
proof (intro conjI impI)
  assume "recv_text msg \<noteq> (if invert_polarity then ''C OK'' else ''N OK'')"
  with assms show "opm_set_polarity invert_polarity s =
          (Inr False, exchanged s d [if invert_polarity then ''$C'' else ''$N''] rest)"
    by (cases invert_polarity) (simp_all add: opm_set_polarity_def opm_send_open opm_recv_msg Let_def)
next
  assume "map_of bandwith_steps (case barg of BandwithEnum b \<Rightarrow> BANDWITH_value b | BandwithStr t \<Rightarrow> t) = Some bcode
          \<and> recv_text msg \<noteq> bcode @ '' OK''"
  with assms show "opm_set_bandwith barg s = (Inr False, exchanged s d [bcode] rest)"
    by (simp add: opm_set_bandwith_def opm_send_open opm_recv_msg)
next
  assume "map_of gain_steps (case garg of GainEnum e \<Rightarrow> GAIN_value e | GainStr t \<Rightarrow> t) = Some gcode
          \<and> (case garg of GainEnum e \<Rightarrow> GAIN_value e | GainStr t \<Rightarrow> t) \<noteq> ''auto-gain''
          \<and> recv_text msg \<noteq> gcode @ '' OK''"
  with assms show "opm_set_gain garg s = (Inr False, exchanged s d [gcode] rest)"
    by (simp add: opm_set_gain_def opm_send_open opm_recv_msg)
next
  assume "opm_detector_min_wavelength s = Some lo \<and> opm_detector_max_wavelength s = Some hi
          \<and> lo \<le> w \<and> w \<le> hi \<and> py_count ''KF:'' (recv_text msg) = 0"
  with assms show "opm_set_wavelength pf w s =
          (Inr False, exchanged s d (''L'' # map (\<lambda>c. [c]) (zfill (py_str w) 4)) rest)"
    by (simp add: opm_set_wavelength_def opm_send_open send_each_open opm_recv_msg)
next
  assume "py_count ''Gain: '' (recv_text msg) = 0 \<and> py_count ''A OK'' (recv_text msg) = 0"
  with assms show "opm_set_auto_zero s = (Inr False, exchanged s d [''$A''] rest)"
    by (simp add: opm_set_auto_zero_def opm_send_open opm_recv_msg)
next
  assume "recv_text msg \<noteq> ''R OK''"
  with assms show "opm_set_auto_zero_reset s = (Inr False, exchanged s d [''$R''] rest)"
    by (simp add: opm_set_auto_zero_reset_def opm_send_open opm_recv_msg)
qed

theorem setters_unacknowledged_unchanged_witness:
  "opm_set_polarity True
     (init_OPM500\<lparr>device := Some \<lparr>pending = [''ERR'', ''N OK''], written = []\<rparr>,
                   opm_detector_min_wavelength := Some 200, opm_detector_max_wavelength := Some 1100\<rparr>) =
     (Inr False, init_OPM500\<lparr>device := Some \<lparr>pending = [''N OK''], written = [''$C'']\<rparr>,
                   opm_detector_min_wavelength := Some 200, opm_detector_max_wavelength := Some 1100\<rparr>)
   \<and> opm_set_bandwith (BandwithEnum KHZ_1)
     (init_OPM500\<lparr>device := Some \<lparr>pending = [''ERR'', ''N OK''], written = []\<rparr>,
                   opm_detector_min_wavelength := Some 200, opm_detector_max_wavelength := Some 1100\<rparr>) =
     (Inr False, init_OPM500\<lparr>device := Some \<lparr>pending = [''N OK''], written = [''B2'']\<rparr>,
                   opm_detector_min_wavelength := Some 200, opm_detector_max_wavelength := Some 1100\<rparr>)
   \<and> opm_set_gain (GainStr ''x10'')
     (init_OPM500\<lparr>device := Some \<lparr>pending = [''ERR'', ''N OK''], written = []\<rparr>,
                   opm_detector_min_wavelength := Some 200, opm_detector_max_wavelength := Some 1100\<rparr>) =
     (Inr False, init_OPM500\<lparr>device := Some \<lparr>pending = [''N OK''], written = [''V2'']\<rparr>,
                   opm_detector_min_wavelength := Some 200, opm_detector_max_wavelength := Some 1100\<rparr>)
   \<and> opm_set_wavelength dec_float 532
     (init_OPM500\<lparr>device := Some \<lparr>pending = [''ERR'', ''N OK''], written = []\<rparr>,
                   opm_detector_min_wavelength := Some 200, opm_detector_max_wavelength := Some 1100\<rparr>) =
     (Inr False, init_OPM500\<lparr>device := Some \<lparr>pending = [''N OK''], written = [''L'', ''0'', ''5'', ''3'', ''2'']\<rparr>,
                   opm_detector_min_wavelength := Some 200, opm_detector_max_wavelength := Some 1100\<rparr>)
   \<and> opm_set_auto_zero
     (init_OPM500\<lparr>device := Some \<lparr>pending = [''ERR'', ''N OK''], written = []\<rparr>,
                   opm_detector_min_wavelength := Some 200, opm_detector_max_wavelength := Some 1100\<rparr>) =
     (Inr False, init_OPM500\<lparr>device := Some \<lparr>pending = [''N OK''], written = [''$A'']\<rparr>,
                   opm_detector_min_wavelength := Some 200, opm_detector_max_wavelength := Some 1100\<rparr>)
   \<and> opm_set_auto_zero_reset
     (init_OPM500\<lparr>device := Some \<lparr>pending = [''ERR'', ''N OK''], written = []\<rparr>,
                   opm_detector_min_wavelength := Some 200, opm_detector_max_wavelength := Some 1100\<rparr>) =
     (Inr False, init_OPM500\<lparr>device := Some \<lparr>pending = [''N OK''], written = [''$R'']\<rparr>,
                   opm_detector_min_wavelength := Some 200, opm_detector_max_wavelength := Some 1100\<rparr>)"
  using setters_unacknowledged_unchanged
    [where s = "init_OPM500\<lparr>device := Some \<lparr>pending = [''ERR'', ''N OK''], written = []\<rparr>,
                   opm_detector_min_wavelength := Some 200, opm_detector_max_wavelength := Some 1100\<rparr>"
       and d = "\<lparr>pending = [''ERR'', ''N OK''], written = []\<rparr>" and msg = "''ERR''" and rest = "[''N OK'']"
       and invert_polarity = True and barg = "BandwithEnum KHZ_1" and bcode = "''B2''"
       and garg = "GainStr ''x10''" and gcode = "''V2''" and lo = 200 and hi = 1100 and w = 532
       and pf = dec_float]
  by (simp add: text_eval bandwith_steps_def gain_steps_def num_eval)

text \<open>
  The auto zero accepts any reply that contains \<open>A OK\<close>: the reply \<open>DATA OK\<close> is not the
  acknowledgment \<open>A OK\<close>, yet the call returns \<open>True\<close> and changes the auto zero state
  and the maximum gain.
\<close>

theorem opm_set_auto_zero_substring_counterexample:
  "opm_set_auto_zero (init_OPM500\<lparr>device := Some \<lparr>pending = [''DATA OK''], written = []\<rparr>, max_gain := 4\<rparr>) =
     (Inr True, init_OPM500\<lparr>device := Some \<lparr>pending = [], written = [''$A'']\<rparr>,
                            initial_auto_zero := ''Auto zero'', max_gain := 6\<rparr>)
   \<and> ''DATA OK'' \<noteq> ''A OK'' \<and> py_count ''Gain: '' ''DATA OK'' = 0
   \<and> initial_auto_zero init_OPM500 = ''None''"
  by (simp add: opm_set_auto_zero_def opm_send_def opm_recv_def text_eval gain_steps_def init_OPM500_def)

text \<open>
  Two replies that are accepted and then fail to convert: the first assignment has
  already been made when \<open>float\<close>, respectively \<open>int\<close>, raises.
\<close>

lemma opm_set_wavelength_unparsable_factor:
  "opm_set_wavelength dec_float 532
     (init_OPM500\<lparr>device := Some \<lparr>pending = [''KF:''], written = []\<rparr>,
                   opm_detector_min_wavelength := Some 200, opm_detector_max_wavelength := Some 1100\<rparr>) =
     (Inl ValueError,
      init_OPM500\<lparr>device := Some \<lparr>pending = [], written = [''L'', ''0'', ''5'', ''3'', ''2'']\<rparr>,
                   opm_detector_min_wavelength := Some 200, opm_detector_max_wavelength := Some 1100,
                   wavelength := 532\<rparr>)"
  by (simp add: opm_set_wavelength_def opm_send_def opm_recv_def text_eval num_eval dec_float_def)

lemma opm_set_auto_zero_unparsable_gain:
  "opm_set_auto_zero (init_OPM500\<lparr>device := Some \<lparr>pending = [''Gain: x''], written = []\<rparr>\<rparr>) =
     (Inl ValueError, init_OPM500\<lparr>device := Some \<lparr>pending = [], written = [''$A'']\<rparr>,
                                  initial_auto_zero := ''Auto zero''\<rparr>)"
  by (simp add: opm_set_auto_zero_def opm_send_def opm_recv_def text_eval num_eval)


section \<open>Wavelength\<close>

text \<open>
  C2, as the driver behaves: with the detector range \<open>[lo, hi]\<close> known,
  \<open>opm_set_wavelength w\<close> for \<open>w\<close> in the range, answered by a reply that contains
  \<open>KF:\<close> and whose whole remainder (every \<open>KF:\<close> removed, comma turned into point,
  stripped) reads as the number \<open>kf\<close>, returns \<open>True\<close>; afterwards
  \<open>opm_get_wavelength\<close> returns \<open>w\<close> and the correction factor is \<open>kf\<close>. For \<open>w\<close>
  outside the range the call returns \<open>False\<close> and the object, transport log included,
  is unchanged: nothing is written.
\<close>

theorem opm_set_wavelength_range:
  assumes "opm_detector_min_wavelength s = Some lo" and "opm_detector_max_wavelength s = Some hi"
  shows
    "(device s = Some d \<and> pending d = msg # rest \<and> lo \<le> w \<and> w \<le> hi
        \<and> py_count ''KF:'' (recv_text msg) > 0
        \<and> pf (py_strip (py_replace '','' ''.'' (py_replace ''KF:'' [] (recv_text msg)))) = Some kf \<longrightarrow>
        opm_set_wavelength pf w s =
          (Inr True, (exchanged s d (''L'' # map (\<lambda>c. [c]) (zfill (py_str w) 4)) rest)
                        \<lparr>wavelength := w, sensitivity := kf\<rparr>)
        \<and> opm_get_wavelength (snd (opm_set_wavelength pf w s)) = w
        \<and> sensitivity (snd (opm_set_wavelength pf w s)) = kf)
   \<and> (w < lo \<or> hi < w \<longrightarrow> opm_set_wavelength pf w s = (Inr False, s))"
  using assms
  by (auto simp: opm_set_wavelength_def opm_send_open send_each_open opm_recv_msg opm_get_wavelength_def)

theorem opm_set_wavelength_range_witness:
  "opm_set_wavelength dec_float 532
     (init_OPM500\<lparr>device := Some \<lparr>pending = [''KF:1,023''], written = []\<rparr>,
                   opm_detector_min_wavelength := Some 200, opm_detector_max_wavelength := Some 1100\<rparr>) =
     (Inr True,
      init_OPM500\<lparr>device := Some \<lparr>pending = [], written = [''L'', ''0'', ''5'', ''3'', ''2'']\<rparr>,
                   opm_detector_min_wavelength := Some 200, opm_detector_max_wavelength := Some 1100,
                   wavelength := 532, sensitivity := 1.023\<rparr>)
   \<and> opm_set_wavelength dec_float 1101
     (init_OPM500\<lparr>device := Some \<lparr>pending = [''KF:1,023''], written = []\<rparr>,
                   opm_detector_min_wavelength := Some 200, opm_detector_max_wavelength := Some 1100\<rparr>) =
     (Inr False,
      init_OPM500\<lparr>device := Some \<lparr>pending = [''KF:1,023''], written = []\<rparr>,
                   opm_detector_min_wavelength := Some 200, opm_detector_max_wavelength := Some 1100\<rparr>)"
  using opm_set_wavelength_range
    [where s = "init_OPM500\<lparr>device := Some \<lparr>pending = [''KF:1,023''], written = []\<rparr>,
                   opm_detector_min_wavelength := Some 200, opm_detector_max_wavelength := Some 1100\<rparr>"
       and d = "\<lparr>pending = [''KF:1,023''], written = []\<rparr>" and msg = "''KF:1,023''" and rest = "[]"
       and lo = 200 and hi = 1100 and w = 532 and pf = dec_float and kf = "1.023"]
    opm_set_wavelength_range
    [where s = "init_OPM500\<lparr>device := Some \<lparr>pending = [''KF:1,023''], written = []\<rparr>,
                   opm_detector_min_wavelength := Some 200, opm_detector_max_wavelength := Some 1100\<rparr>"
       and d = "\<lparr>pending = [''KF:1,023''], written = []\<rparr>" and msg = "''KF:1,023''" and rest = "[]"
       and lo = 200 and hi = 1100 and w = 1101 and pf = dec_float]
  by (simp add: opm_set_wavelength_def opm_send_def opm_recv_def text_eval num_eval dec_float_def)

text \<open>
  A reply that contains \<open>KF:\<close> followed by a comma-decimal number, but beside other
  text, is not read: \<open>float\<close> is applied to the whole remainder \<open>OK 1.023\<close> and raises,
  and the correction factor keeps its old value 1.
\<close>

theorem opm_set_wavelength_extra_text_counterexample:
  "opm_set_wavelength dec_float 532
     (init_OPM500\<lparr>device := Some \<lparr>pending = [''OK KF:1,023''], written = []\<rparr>,
                   opm_detector_min_wavelength := Some 200, opm_detector_max_wavelength := Some 1100\<rparr>) =
     (Inl ValueError,
      init_OPM500\<lparr>device := Some \<lparr>pending = [], written = [''L'', ''0'', ''5'', ''3'', ''2'']\<rparr>,
                   opm_detector_min_wavelength := Some 200, opm_detector_max_wavelength := Some 1100,
                   wavelength := 532\<rparr>)
   \<and> sensitivity init_OPM500 = 1
   \<and> ''OK KF:1,023'' = ''OK '' @ ''KF:'' @ ''1,023''
   \<and> dec_float (py_replace '','' ''.'' ''1,023'') = Some 1.023"
  by (simp add: opm_set_wavelength_def opm_send_def opm_recv_def text_eval num_eval dec_float_def
        init_OPM500_def)

section \<open>Gain query\<close>

lemma inverted_gain_steps_None:
  "inverted gain_steps g1 = None \<Longrightarrow> g1 \<notin> set [''V1'', ''V2'', ''V3'', ''V4'', ''V5'', ''V6'']"
  by (auto simp: inverted_def gain_steps_def)

text \<open>
  C10: \<open>opm_get_gain\<close> answered by the single line \<open>V? OK\<close>, or by an empty reply, ends in
  an \<open>IndexError\<close>; and whenever it returns \<open>None\<close>, the reply has a first line that
  differs from \<open>V? OK\<close>, or a second line outside \<open>V1..V6\<close>.
\<close>

theorem opm_get_gain_reply_shapes:
  assumes "device s = Some d" and "pending d = msg # rest"
  shows
    "(recv_text msg = ''V? OK'' \<longrightarrow> opm_get_gain s = (Inl IndexError, exchanged s d [''V?''] rest))
   \<and> (recv_text msg = [] \<longrightarrow> opm_get_gain s = (Inl IndexError, exchanged s d [''V?''] rest))
   \<and> (fst (opm_get_gain s) = Inr None \<longrightarrow>
        (\<exists>g0 gs. splitlines (recv_text msg) = g0 # gs
           \<and> (g0 \<noteq> ''V? OK''
               \<or> (\<exists>g1 gs'. gs = g1 # gs' \<and> g1 \<notin> set [''V1'', ''V2'', ''V3'', ''V4'', ''V5'', ''V6'']))))"
proof (intro conjI impI)
  assume "recv_text msg = ''V? OK''"
  with assms show "opm_get_gain s = (Inl IndexError, exchanged s d [''V?''] rest)"
    by (simp add: opm_get_gain_def opm_send_open opm_recv_msg splitlines_def py_linebreak_def)
next
  assume "recv_text msg = []"
  with assms show "opm_get_gain s = (Inl IndexError, exchanged s d [''V?''] rest)"
    by (simp add: opm_get_gain_def opm_send_open opm_recv_msg splitlines_def)
next
  assume none: "fst (opm_get_gain s) = Inr None"
  show "\<exists>g0 gs. splitlines (recv_text msg) = g0 # gs
           \<and> (g0 \<noteq> ''V? OK''
               \<or> (\<exists>g1 gs'. gs = g1 # gs' \<and> g1 \<notin> set [''V1'', ''V2'', ''V3'', ''V4'', ''V5'', ''V6'']))"
  proof (cases "splitlines (recv_text msg)")
    case Nil
    with assms none show ?thesis
      by (simp add: opm_get_gain_def opm_send_open opm_recv_msg)
  next
    case (Cons g0 gs)
    show ?thesis
    proof (cases "g0 = ''V? OK''")
      case False
      with Cons show ?thesis by simp
    next
      case True
      show ?thesis
      proof (cases gs)
        case Nil
        with assms none Cons True show ?thesis
          by (simp add: opm_get_gain_def opm_send_open opm_recv_msg)
      next
        case (Cons g1 gs')
        with assms none \<open>splitlines (recv_text msg) = g0 # gs\<close> True
        have "inverted gain_steps g1 = None"
          by (auto simp: opm_get_gain_def opm_send_open opm_recv_msg Let_def
                split: option.splits if_splits)
        then have "g1 \<notin> set [''V1'', ''V2'', ''V3'', ''V4'', ''V5'', ''V6'']"
          by (rule inverted_gain_steps_None)
        with Cons \<open>splitlines (recv_text msg) = g0 # gs\<close> show ?thesis by simp
      qed
    qed
  qed
qed

theorem opm_get_gain_reply_shapes_witness:
  "opm_get_gain (init_OPM500\<lparr>device := Some \<lparr>pending = [''V? OK'' @ [CHR 0x0D]], written = []\<rparr>\<rparr>) =
     (Inl IndexError, init_OPM500\<lparr>device := Some \<lparr>pending = [], written = [''V?'']\<rparr>\<rparr>)
   \<and> opm_get_gain (init_OPM500\<lparr>device := Some \<lparr>pending = [[CHR 0x0D]], written = []\<rparr>\<rparr>) =
     (Inl IndexError, init_OPM500\<lparr>device := Some \<lparr>pending = [], written = [''V?'']\<rparr>\<rparr>)
   \<and> fst (opm_get_gain (init_OPM500\<lparr>device := Some \<lparr>pending = [''V? OK'' @ [CHR 0x0A] @ ''V7''], written = []\<rparr>\<rparr>)) = Inr None
   \<and> splitlines (recv_text (''V? OK'' @ [CHR 0x0A] @ ''V7'')) = [''V? OK'', ''V7'']"
  using opm_get_gain_reply_shapes
    [where s = "init_OPM500\<lparr>device := Some \<lparr>pending = [''V? OK'' @ [CHR 0x0D]], written = []\<rparr>\<rparr>"
       and d = "\<lparr>pending = [''V? OK'' @ [CHR 0x0D]], written = []\<rparr>" and msg = "''V? OK'' @ [CHR 0x0D]" and rest = "[]"]
    opm_get_gain_reply_shapes
    [where s = "init_OPM500\<lparr>device := Some \<lparr>pending = [[CHR 0x0D]], written = []\<rparr>\<rparr>"
       and d = "\<lparr>pending = [[CHR 0x0D]], written = []\<rparr>" and msg = "[CHR 0x0D]" and rest = "[]"]
    opm_get_gain_reply_shapes
    [where s = "init_OPM500\<lparr>device := Some \<lparr>pending = [''V? OK'' @ [CHR 0x0A] @ ''V7''], written = []\<rparr>\<rparr>"
       and d = "\<lparr>pending = [''V? OK'' @ [CHR 0x0A] @ ''V7''], written = []\<rparr>" and msg = "''V? OK'' @ [CHR 0x0A] @ ''V7''" and rest = "[]"]
  by (simp add: opm_get_gain_def opm_send_def opm_recv_def text_eval splitlines_def py_linebreak_def
        inverted_def gain_steps_def)

section \<open>Model marker\<close>

lemma marker_at_length: "marker_at s \<Longrightarrow> 6 \<le> length s"
  by (auto simp: marker_at_def dest: list_all2_lengthD)

lemma re_sub_marker_cases:
  "(line_start \<and> marker_at s) \<or> re_sub_marker line_start s = s
     \<or> CHR 0x0A \<in> set (re_sub_marker line_start s)"
proof (induction s arbitrary: line_start)
  case Nil
  then show ?case by simp
next
  case (Cons c cs)
  from Cons.IH [of "c = CHR 0x0A"] show ?case by auto
qed

lemma startswith_OPM500: "startswith info ''OPM500'' \<longleftrightarrow> take 6 info = ''OPM500''"
  by (simp add: startswith_def eval_nat_numeral)

lemma marker_at_OPM500: "startswith info ''OPM500'' \<Longrightarrow> marker_at info"
  by (simp add: startswith_OPM500 marker_at_def)

text \<open>
  C7, as the driver behaves: the marker check of \<open>_initialize\<close> passes exactly when the
  identity text starts with the six characters \<open>OPM500\<close>, in upper case and at the very
  beginning of the text.
\<close>

theorem initialize_marker_check_iff:
  "initialize_marker_check info \<longleftrightarrow> startswith info ''OPM500''"
proof (cases "marker_at info")
  case True
  then have "info \<noteq> []" using marker_at_length [of info] by auto
  then obtain c cs where "info = c # cs" by (cases info) auto
  with True show ?thesis
    by (simp add: initialize_marker_check_def startswith_OPM500)
next
  case False
  then have no: "\<not> startswith info ''OPM500''"
    using marker_at_OPM500 by blast
  from re_sub_marker_cases [of True info] False
  have "re_sub_marker True info = info \<or> CHR 0x0A \<in> set (re_sub_marker True info)"
    by simp
  then have "re_sub_marker True info \<noteq> ''OPM500''"
  proof
    assume "re_sub_marker True info = info"
    with no show ?thesis by (auto simp: startswith_OPM500)
  next
    assume "CHR 0x0A \<in> set (re_sub_marker True info)"
    then show ?thesis by auto
  qed
  with no show ?thesis
    by (simp add: initialize_marker_check_def)
qed

text \<open>
  A block whose first line starts with the marker in lower case is rejected, and so is a
  block with the marker at the start of its second line.
\<close>

theorem initialize_marker_lowercase_counterexample:
  "\<not> initialize_marker_check ''opm500 FW1.2'' \<and> marker_at ''opm500 FW1.2''
   \<and> \<not> initialize_marker_check (''hello'' @ [CHR 0x0A] @ ''OPM500 FW1.2'')"
  by (simp add: initialize_marker_check_def marker_at_def)


section \<open>Automatic gain: number of adjustments\<close>

lemma gain_commands_send:
  "gain_commands (snd (opm_send msg s)) =
     gain_commands s + (if device s \<noteq> None \<and> msg \<in> set [''V1'', ''V2'', ''V3'', ''V4'', ''V5'', ''V6''] then 1 else 0)"
  by (auto simp: opm_send_def gain_commands_def split: option.splits)

lemma gain_commands_recv: "gain_commands (snd (opm_recv s)) = gain_commands s"
  by (auto simp: opm_recv_def gain_commands_def split: option.splits list.splits)

lemma gain_commands_update [simp]:
  "gain_commands (s\<lparr>autogain_gain := a\<rparr>) = gain_commands s"
  "gain_commands (s\<lparr>gain := g\<rparr>) = gain_commands s"
  by (simp_all add: gain_commands_def)

lemma gain_commands_get_gain: "gain_commands (snd (opm_get_gain s)) = gain_commands s"
proof -
  obtain r1 s1 where 1: "opm_send ''V?'' s = (r1, s1)" by (cases "opm_send ''V?'' s")
  obtain r2 s2 where 2: "opm_recv s1 = (r2, s2)" by (cases "opm_recv s1")
  from 1 have c1: "gain_commands s1 = gain_commands s"
    using gain_commands_send [of "''V?''" s] by simp
  from 2 have c2: "gain_commands s2 = gain_commands s1"
    using gain_commands_recv [of s1] by simp
  show ?thesis
    using 1 2 c1 c2
    by (auto simp: opm_get_gain_def Let_def split: sum.splits list.splits option.splits)
qed

lemma gain_commands_raw_measure:
  "gain_commands (snd (opm_get_single_raw_measure s)) = gain_commands s"
proof -
  obtain r1 s1 where 1: "opm_send ''$E'' s = (r1, s1)" by (cases "opm_send ''$E'' s")
  obtain r2 s2 where 2: "opm_recv s1 = (r2, s2)" by (cases "opm_recv s1")
  from 1 have c1: "gain_commands s1 = gain_commands s"
    using gain_commands_send [of "''$E''" s] by simp
  from 2 have c2: "gain_commands s2 = gain_commands s1"
    using gain_commands_recv [of s1] by simp
  show ?thesis
    using 1 2 c1 c2
    by (auto simp: opm_get_single_raw_measure_def split: sum.splits)
qed

lemma gain_commands_set_gain:
  "gain_commands (snd (opm_set_gain arg s)) \<le> gain_commands s + 1"
proof (cases "map_of gain_steps (case arg of GainEnum e \<Rightarrow> GAIN_value e | GainStr t \<Rightarrow> t)")
  case None
  then show ?thesis by (simp add: opm_set_gain_def)
next
  case (Some code)
  obtain r1 s1 where 1: "opm_send code s = (r1, s1)" by (cases "opm_send code s")
  obtain r2 s2 where 2: "opm_recv s1 = (r2, s2)" by (cases "opm_recv s1")
  from 1 have c1: "gain_commands s1 \<le> gain_commands s + 1"
    using gain_commands_send [of code s] by (simp split: if_splits)
  from 2 have c2: "gain_commands s2 = gain_commands s1"
    using gain_commands_recv [of s1] by simp
  show ?thesis
    using Some 1 2 c1 c2
    by (auto simp: opm_set_gain_def Let_def split: sum.splits option.splits)
qed

lemma gain_commands_adjust:
  "gain_commands (snd (adjust_gain n s)) \<le> gain_commands s + 1"
proof (cases "inverted gain_steps (''V'' @ py_str n)")
  case None
  then show ?thesis by (simp add: adjust_gain_def)
next
  case (Some key)
  obtain r2 s2 where 2: "opm_set_gain (GainStr key) (s\<lparr>autogain_gain := Some n\<rparr>) = (r2, s2)"
    by (cases "opm_set_gain (GainStr key) (s\<lparr>autogain_gain := Some n\<rparr>)")
  then have "gain_commands s2 \<le> gain_commands s + 1"
    using gain_commands_set_gain [of "GainStr key" "s\<lparr>autogain_gain := Some n\<rparr>"] by simp
  with Some 2 show ?thesis
    using gain_commands_raw_measure [of s2]
    by (auto simp: adjust_gain_def split: sum.splits)
qed


lemma length_gain_steps: "int (length gain_steps) = 7"
  by (simp add: gain_steps_def)

lemma autogain_commands_bound:
  "gain_commands (snd (opm_autogain pf tmp recursion last_operation s))
     \<le> gain_commands s + nat (int (length gain_steps) - recursion)"
proof (induction pf tmp recursion last_operation s rule: opm_autogain.induct)
  case (1 pf tmp recursion last_operation s)
  show ?case
  proof (cases "int (length gain_steps) \<le> recursion")
    case True
    then show ?thesis
      by (subst opm_autogain.simps) simp
  next
    case False
    obtain x y where xy: "(x, y) = (if autogain_gain s = None then opm_get_gain s else (Inr None, s))"
      by (cases "if autogain_gain s = None then opm_get_gain s else (Inr None, s)") auto
    then have cy: "gain_commands y = gain_commands s"
      using gain_commands_get_gain [of s] by (auto split: if_splits dest: arg_cong [where f = snd])
    show ?thesis
    proof (cases x)
      case (Inl e)
      with False xy [symmetric] cy show ?thesis
        by (subst opm_autogain.simps) simp
    next
      case (Inr b)
      show ?thesis
      proof (cases "pf (py_replace '','' ''.'' (slice_to tmp (- 2)))")
        case None
        with False xy [symmetric] cy Inr show ?thesis
          by (subst opm_autogain.simps) simp
      next
        case (Some a)
        show ?thesis
        proof (cases "autogain_gain y")
          case None
          with False xy [symmetric] cy Inr Some show ?thesis
            by (subst opm_autogain.simps) simp
        next
          case g: (Some g)
          consider (dec) "90 < full_scale_level (Some g) a \<and> 1 < g"
            | (inc) "\<not> (90 < full_scale_level (Some g) a \<and> 1 < g)"
                    "full_scale_level (Some g) a < 8 \<and> g < max_gain y"
            | (keep) "\<not> (90 < full_scale_level (Some g) a \<and> 1 < g)"
                     "\<not> (full_scale_level (Some g) a < 8 \<and> g < max_gain y)"
            by blast
          then show ?thesis
          proof cases
            case dec
            obtain xa ya where adj: "(xa, ya) = adjust_gain (g - 1) y"
              by (cases "adjust_gain (g - 1) y") auto
            then have ca: "gain_commands ya \<le> gain_commands y + 1"
              using gain_commands_adjust [of "g - 1" y] by (auto dest: arg_cong [where f = snd])
            show ?thesis
            proof (cases xa)
              case (Inl e)
              with False xy [symmetric] cy Inr Some g dec adj [symmetric] ca show ?thesis
                by (subst opm_autogain.simps) (simp add: length_gain_steps)
            next
              case m: (Inr m)
              from "1.IH"(1) [OF False xy Inr Some g dec adj m]
              have "gain_commands (snd (opm_autogain pf m (recursion + 1) 1 ya))
                      \<le> gain_commands ya + nat (int (length gain_steps) - (recursion + 1))" .
              with False xy [symmetric] cy Inr Some g dec adj [symmetric] ca m show ?thesis
                by (subst opm_autogain.simps) (simp add: length_gain_steps)
            qed
          next
            case inc
            obtain xa ya where adj: "(xa, ya) = adjust_gain (g + 1) y"
              by (cases "adjust_gain (g + 1) y") auto
            then have ca: "gain_commands ya \<le> gain_commands y + 1"
              using gain_commands_adjust [of "g + 1" y] by (auto dest: arg_cong [where f = snd])
            show ?thesis
            proof (cases xa)
              case (Inl e)
              with False xy [symmetric] cy Inr Some g inc adj [symmetric] ca show ?thesis
                by (subst opm_autogain.simps) (simp add: length_gain_steps)
            next
              case m: (Inr m)
              from "1.IH"(2) [OF False xy Inr Some g inc adj m]
              have "gain_commands (snd (opm_autogain pf m
                      ((if last_operation = 1 then int (length gain_steps) else recursion) + 1) 2 ya))
                      \<le> gain_commands ya + nat (int (length gain_steps)
                            - ((if last_operation = 1 then int (length gain_steps) else recursion) + 1))" .
              with False xy [symmetric] cy Inr Some g inc adj [symmetric] ca m show ?thesis
                by (subst opm_autogain.simps) (simp add: length_gain_steps split: if_splits)
            qed
          next
            case keep
            with False xy [symmetric] cy Inr Some g show ?thesis
              by (subst opm_autogain.simps) auto
          qed
        qed
      qed
    qed
  qed
qed

lemmas run_eval = opm_autogain.simps adjust_gain_def opm_set_gain_def opm_get_single_raw_measure_def
  opm_send_def opm_recv_def full_scale_level_def inverted_def gain_steps_def dec_float_def
  text_eval num_eval init_OPM500_def

text \<open>
  C3, as the driver behaves: for every first reading, every state and every sequence of
  replies, one call of \<open>_opm_autogain\<close> (recursion 0, no last operation) performs at
  most 7 gain adjustments: the cap is the number of entries of the gain table, which
  counts the \<open>auto-gain\<close> entry beside the six levels.
\<close>

theorem opm_autogain_adjustments_bound:
  "gain_commands (snd (opm_autogain pf tmp_amplitude 0 0 s)) \<le> gain_commands s + 7"
  using autogain_commands_bound [of pf tmp_amplitude 0 0 s]
  by (simp add: length_gain_steps)

text \<open>
  A search with seven adjustments: from level 3, three increments up to level 6, then
  four decrements down to level 2; the eighth call returns the reading.
\<close>

theorem opm_autogain_seven_adjustments_counterexample:
  "opm_autogain dec_float ''0,0nA'' 0 0
     (init_OPM500\<lparr>device := Some \<lparr>pending = [''V4 OK'', ''I0,0nA'', ''V5 OK'', ''I0,0nA'',
          ''V6 OK'', ''I99999,0nA'', ''V5 OK'', ''I99999,0nA'', ''V4 OK'', ''I99999,0nA'',
          ''V3 OK'', ''I99999,0nA'', ''V2 OK'', ''I99999,0nA''], written = []\<rparr>,
        gain := ''auto-gain'', autogain_gain := Some 3\<rparr>) =
     (Inr ''99999,0nA'',
      init_OPM500\<lparr>device := Some \<lparr>pending = [], written = [''V4'', ''$E'', ''V5'', ''$E'',
          ''V6'', ''$E'', ''V5'', ''$E'', ''V4'', ''$E'', ''V3'', ''$E'', ''V2'', ''$E'']\<rparr>,
        gain := ''auto-gain'', autogain_gain := Some 2\<rparr>)
   \<and> gain_commands (snd (opm_autogain dec_float ''0,0nA'' 0 0
     (init_OPM500\<lparr>device := Some \<lparr>pending = [''V4 OK'', ''I0,0nA'', ''V5 OK'', ''I0,0nA'',
          ''V6 OK'', ''I99999,0nA'', ''V5 OK'', ''I99999,0nA'', ''V4 OK'', ''I99999,0nA'',
          ''V3 OK'', ''I99999,0nA'', ''V2 OK'', ''I99999,0nA''], written = []\<rparr>,
        gain := ''auto-gain'', autogain_gain := Some 3\<rparr>))) = 7"
  by (simp add: run_eval gain_commands_def)

section \<open>Automatic gain: the guard against oscillation\<close>

text \<open>
  C4, as the driver behaves: in the increment branch (percentage below 8, level below the
  maximum gain), when the last operation was a decrement (\<open>last_operation = 1\<close>), the
  search is exactly one adjustment: it returns the reading taken after this increment (or
  the error of the adjustment) and adjusts no further.
\<close>

theorem opm_autogain_increment_after_decrement:
  assumes "recursion < int (length gain_steps)"
    and "autogain_gain s = Some g"
    and "pf (py_replace '','' ''.'' (slice_to tmp_amplitude (- 2))) = Some amplitude"
    and "full_scale_level (Some g) amplitude < 8" and "g < max_gain s"
  shows "opm_autogain pf tmp_amplitude recursion 1 s = adjust_gain (g + 1) s"
proof -
  have stop: "opm_autogain pf m (int (length gain_steps) + 1) 2 s2 = (Inr m, s2)" for m s2
    by (subst opm_autogain.simps) simp
  show ?thesis
    using assms
    by (subst opm_autogain.simps) (auto simp: stop split: prod.splits sum.splits)
qed

theorem opm_autogain_increment_after_decrement_witness:
  "opm_autogain dec_float ''0,5nA'' 1 1
     (init_OPM500\<lparr>device := Some \<lparr>pending = [''V3 OK'', ''I0,0nA'', ''V4 OK'', ''I0,0nA''], written = [''V2'', ''$E'']\<rparr>,
        gain := ''auto-gain'', autogain_gain := Some 2\<rparr>) =
     (Inr ''0,0nA'',
      init_OPM500\<lparr>device := Some \<lparr>pending = [''V4 OK'', ''I0,0nA''], written = [''V2'', ''$E'', ''V3'', ''$E'']\<rparr>,
        gain := ''auto-gain'', autogain_gain := Some 3\<rparr>)"
  using opm_autogain_increment_after_decrement
    [where recursion = 1 and pf = dec_float and tmp_amplitude = "''0,5nA''" and g = 2 and amplitude = "0.5"
       and s = "init_OPM500\<lparr>device := Some \<lparr>pending = [''V3 OK'', ''I0,0nA'', ''V4 OK'', ''I0,0nA''], written = [''V2'', ''$E'']\<rparr>,
        gain := ''auto-gain'', autogain_gain := Some 2\<rparr>"]
  by (simp add: adjust_gain_def opm_set_gain_def opm_get_single_raw_measure_def
        opm_send_def opm_recv_def full_scale_level_def inverted_def gain_steps_def dec_float_def
        text_eval num_eval init_OPM500_def)

text \<open>
  Increments that follow increments do not end the search: from level 1 with readings at
  zero the same search increments five times in a row.
\<close>

theorem opm_autogain_consecutive_increments_counterexample:
  "opm_autogain dec_float ''0,0nA'' 0 0
     (init_OPM500\<lparr>device := Some \<lparr>pending = [''V2 OK'', ''I0,0nA'', ''V3 OK'', ''I0,0nA'',
          ''V4 OK'', ''I0,0nA'', ''V5 OK'', ''I0,0nA'', ''V6 OK'', ''I0,0nA''], written = []\<rparr>,
        gain := ''auto-gain'', autogain_gain := Some 1\<rparr>) =
     (Inr ''0,0nA'',
      init_OPM500\<lparr>device := Some \<lparr>pending = [], written = [''V2'', ''$E'', ''V3'', ''$E'',
          ''V4'', ''$E'', ''V5'', ''$E'', ''V6'', ''$E'']\<rparr>,
        gain := ''auto-gain'', autogain_gain := Some 6\<rparr>)"
  by (simp add: run_eval)


section \<open>Measurement: normalisation and scaling\<close>

lemma slice_to_suffix2: "slice_to (m @ [x, y]) (- 2) = m"
  by (simp add: slice_to_def)

lemma py_find_absent: "c \<notin> set m \<Longrightarrow> py_find (m @ [x, c]) c = int (length m) + (if x = c then 0 else 1)"
  by (induction m) (auto simp: Let_def)

lemma unit_suffix:
  assumes "CHR ''A'' \<notin> set m" and "x \<noteq> CHR ''A''"
  shows "slice_from (m @ [x, CHR ''A'']) (py_find (m @ [x, CHR ''A'']) CHR ''A'' - 1) = [x, CHR ''A'']"
  using assms by (simp add: py_find_absent slice_from_def)

lemma reading_base_suffix:
  assumes "CHR ''A'' \<notin> set m" and "pf (py_replace '','' ''.'' m) = Some a"
  shows "reading_base pf (m @ ''uA'') = Inr (a * 1000)" and "reading_base pf (m @ ''nA'') = Inr a"
  using assms unit_suffix [of m "CHR ''u''"] unit_suffix [of m "CHR ''n''"]
    slice_to_suffix2 [of m "CHR ''u''" "CHR ''A''"] slice_to_suffix2 [of m "CHR ''n''" "CHR ''A''"]
  by (simp_all add: reading_base_def)

lemma py_round_1: "py_round 1 6 = 1"
  by (simp add: py_round_def round_half_even_def)

lemma py_round_milli: "py_round (1 / 1000) 9 = 1 / 1000"
  by (simp add: py_round_def round_half_even_def)

lemma scale_micro:
  "u \<in> set [CHR 0xB5 # ''A'', CHR 0xB5 # ''w'', CHR 0xB5 # ''W/cm'' @ [CHR 0xB2]] \<Longrightarrow>
   scale_to_unit u 1000 = Inr 1"
  using py_round_1 by (auto simp: scale_to_unit_def startswith_def)

lemma scale_milli:
  "u \<in> set [''mA'', ''mW'', ''mW/cm'' @ [CHR 0xB2]] \<Longrightarrow> scale_to_unit u 1000 = Inr (1 / 1000)"
  using py_round_milli by (auto simp: scale_to_unit_def startswith_def)

lemmas measure_eval = opm_get_single_raw_measure_def opm_send_def opm_recv_def reading_base_def
  dec_float_def text_eval is_digit_def digits_val_def digit_val_def init_OPM500_def Let_def

lemma irradiance_area_small: "1 / ((7\<^sup>2 / 400) * pi) \<noteq> (1::real)"
proof -
  have "(7\<^sup>2 / 400) * pi < 1"
    using pi_less_4 by simp
  then show ?thesis by auto
qed

text \<open>
  C8, as the driver behaves. A reading whose magnitude \<open>m\<close> reads as \<open>a\<close> has the base
  \<open>a * 1000\<close> with the suffix \<open>uA\<close> and \<open>a\<close> with the suffix \<open>nA\<close>. With correction
  factor 1 and filter factor 1, a reading of base 1000 is measured as 1 in the micro units
  of current and power and as 0.001 in the milli units of current and power; in the
  irradiance units of the same scale these values are further divided by the illuminated
  area \<open>pi * aperture^2 / 400\<close>. The reading is the one the acquisition step hands to the
  pipeline, after the gain search when the mode is automatic.
\<close>

theorem measurement_scaling:
  "(CHR ''A'' \<notin> set m \<and> pf (py_replace '','' ''.'' m) = Some a \<longrightarrow>
      reading_base pf (m @ ''uA'') = Inr (a * 1000) \<and> reading_base pf (m @ ''nA'') = Inr a)
   \<and> (opm_get_single_raw_measure s = (Inr raw, s1)
        \<and> (if gain s1 = ''auto-gain'' then opm_autogain pf raw 0 0 s1 else (Inr raw, s1)) = (Inr amplitude, s2)
        \<and> reading_base pf amplitude = Inr 1000 \<and> sensitivity s2 = 1 \<and> filter_factor s2 = 1 \<longrightarrow>
      (unit s2 \<in> set [CHR 0xB5 # ''A'', CHR 0xB5 # ''w''] \<longrightarrow>
         opm_get_measurement pf s = (Inr (1, unit s2), s2))
      \<and> (unit s2 \<in> set [''mA'', ''mW''] \<longrightarrow>
         opm_get_measurement pf s = (Inr (1 / 1000, unit s2), s2))
      \<and> (unit s2 = CHR 0xB5 # ''W/cm'' @ [CHR 0xB2] \<and> aperture s2 \<noteq> 0 \<longrightarrow>
         opm_get_measurement pf s = (Inr (1 / (((aperture s2)\<^sup>2 / 400) * pi), unit s2), s2))
      \<and> (unit s2 = ''mW/cm'' @ [CHR 0xB2] \<and> aperture s2 \<noteq> 0 \<longrightarrow>
         opm_get_measurement pf s = (Inr (1 / 1000 / (((aperture s2)\<^sup>2 / 400) * pi), unit s2), s2)))"
proof (intro conjI impI)
  assume "CHR ''A'' \<notin> set m \<and> pf (py_replace '','' ''.'' m) = Some a"
  then show "reading_base pf (m @ ''uA'') = Inr (a * 1000)" "reading_base pf (m @ ''nA'') = Inr a"
    by (simp_all add: reading_base_suffix)
next
  assume acq: "opm_get_single_raw_measure s = (Inr raw, s1)
        \<and> (if gain s1 = ''auto-gain'' then opm_autogain pf raw 0 0 s1 else (Inr raw, s1)) = (Inr amplitude, s2)
        \<and> reading_base pf amplitude = Inr 1000 \<and> sensitivity s2 = 1 \<and> filter_factor s2 = 1"
  {
    assume u: "unit s2 \<in> set [CHR 0xB5 # ''A'', CHR 0xB5 # ''w'']"
    then have "scale_to_unit (unit s2) 1000 = Inr 1" by (intro scale_micro) auto
    with acq u show "opm_get_measurement pf s = (Inr (1, unit s2), s2)"
      by (auto simp: opm_get_measurement_def irradiance_units_def)
  }
  {
    assume u: "unit s2 \<in> set [''mA'', ''mW'']"
    then have "scale_to_unit (unit s2) 1000 = Inr (1 / 1000)" by (intro scale_milli) auto
    with acq u show "opm_get_measurement pf s = (Inr (1 / 1000, unit s2), s2)"
      by (auto simp: opm_get_measurement_def irradiance_units_def)
  }
  {
    assume u: "unit s2 = CHR 0xB5 # ''W/cm'' @ [CHR 0xB2] \<and> aperture s2 \<noteq> 0"
    then have "scale_to_unit (unit s2) 1000 = Inr 1" by (intro scale_micro) auto
    with acq u show "opm_get_measurement pf s = (Inr (1 / (((aperture s2)\<^sup>2 / 400) * pi), unit s2), s2)"
      by (auto simp: opm_get_measurement_def irradiance_units_def current_units_def)
  }
  {
    assume u: "unit s2 = ''mW/cm'' @ [CHR 0xB2] \<and> aperture s2 \<noteq> 0"
    then have "scale_to_unit (unit s2) 1000 = Inr (1 / 1000)" by (intro scale_milli) auto
    with acq u show "opm_get_measurement pf s = (Inr (1 / 1000 / (((aperture s2)\<^sup>2 / 400) * pi), unit s2), s2)"
      by (auto simp: opm_get_measurement_def irradiance_units_def current_units_def)
  }
qed


theorem measurement_scaling_witness:
  "reading_base dec_float ''1,0uA'' = Inr 1000 \<and> reading_base dec_float ''1,0nA'' = Inr 1
   \<and> opm_get_measurement dec_float
        (init_OPM500\<lparr>device := Some \<lparr>pending = [''I1,0uA''], written = []\<rparr>\<rparr>) =
      (Inr (1, CHR 0xB5 # ''A''), init_OPM500\<lparr>device := Some \<lparr>pending = [], written = [''$E'']\<rparr>\<rparr>)
   \<and> opm_get_measurement dec_float
        (init_OPM500\<lparr>device := Some \<lparr>pending = [''I1,0uA''], written = []\<rparr>, unit := ''mW''\<rparr>) =
      (Inr (1 / 1000, ''mW''),
       init_OPM500\<lparr>device := Some \<lparr>pending = [], written = [''$E'']\<rparr>, unit := ''mW''\<rparr>)"
  using measurement_scaling
    [where m = "''1,0''" and pf = dec_float and a = 1
       and s = "init_OPM500\<lparr>device := Some \<lparr>pending = [''I1,0uA''], written = []\<rparr>\<rparr>"
       and raw = "''1,0uA''" and amplitude = "''1,0uA''"
       and ?s1.0 = "init_OPM500\<lparr>device := Some \<lparr>pending = [], written = [''$E'']\<rparr>\<rparr>"
       and ?s2.0 = "init_OPM500\<lparr>device := Some \<lparr>pending = [], written = [''$E'']\<rparr>\<rparr>"]
    measurement_scaling
    [where m = "''1,0''" and pf = dec_float and a = 1
       and s = "init_OPM500\<lparr>device := Some \<lparr>pending = [''I1,0uA''], written = []\<rparr>, unit := ''mW''\<rparr>"
       and raw = "''1,0uA''" and amplitude = "''1,0uA''"
       and ?s1.0 = "init_OPM500\<lparr>device := Some \<lparr>pending = [], written = [''$E'']\<rparr>, unit := ''mW''\<rparr>"
       and ?s2.0 = "init_OPM500\<lparr>device := Some \<lparr>pending = [], written = [''$E'']\<rparr>, unit := ''mW''\<rparr>"]
  by (simp add: measure_eval)

text \<open>
  In the micro unit of irradiance the same reading is not measured as 1: at the default
  aperture of 7 mm the value is \<open>1 / (49 / 400 * pi)\<close>.
\<close>

theorem measurement_irradiance_counterexample:
  "opm_get_measurement dec_float
     (init_OPM500\<lparr>device := Some \<lparr>pending = [''I1,0uA''], written = []\<rparr>,
                   unit := UNITS_value MICROWATTS_PER_SQUARE_CENTIMETER\<rparr>) =
     (Inr (1 / ((7\<^sup>2 / 400) * pi), UNITS_value MICROWATTS_PER_SQUARE_CENTIMETER),
      init_OPM500\<lparr>device := Some \<lparr>pending = [], written = [''$E'']\<rparr>,
                   unit := UNITS_value MICROWATTS_PER_SQUARE_CENTIMETER\<rparr>)
   \<and> 1 / ((7\<^sup>2 / 400) * pi) \<noteq> (1::real)
   \<and> reading_base dec_float ''1,0uA'' = Inr 1000
   \<and> startswith (UNITS_value MICROWATTS_PER_SQUARE_CENTIMETER) [CHR 0xB5]"
  using irradiance_area_small
  by (simp add: opm_get_measurement_def measure_eval scale_to_unit_def py_round_def
        round_half_even_def current_units_def irradiance_units_def)

section \<open>Measurement: decibel-milliwatts\<close>










end
